theory Spec2Isabelle
  imports Main "HOL-Library.Word" "HOL-Library.Sublist"
begin

section \<open>JavaScript values used by the page\<close>

text \<open>
  A JavaScript string is a sequence of UTF-16 code units. Literals of the source are
  written \<open>js ''...''\<close>; the two marks that the source puts in front of a verdict
  (U+2705 and U+274C) are single code units.
\<close>

type_synonym jchar = "16 word"
type_synonym jstring = "jchar list"

definition js :: "string \<Rightarrow> jstring" where
  "js s = map (\<lambda>c. of_nat (of_char c)) s"

definition check_mark :: jstring where
  "check_mark = [0x2705]"

definition cross_mark :: jstring where
  "cross_mark = [0x274C]"

text \<open>
  \<open>String.prototype.trim\<close> removes the ECMAScript WhiteSpace and LineTerminator code
  units from both ends.
\<close>

definition isWhiteSpace :: "jchar \<Rightarrow> bool" where
  "isWhiteSpace c \<longleftrightarrow>
     c \<in> {0x9, 0xA, 0xB, 0xC, 0xD, 0x20, 0xA0, 0x1680, 0x2028, 0x2029, 0x202F, 0x205F,
          0x3000, 0xFEFF}
     \<or> (0x2000 \<le> c \<and> c \<le> 0x200A)"

definition trim :: "jstring \<Rightarrow> jstring" where
  "trim s = rev (dropWhile isWhiteSpace (rev (dropWhile isWhiteSpace s)))"

text \<open>
  Truthiness. A field of a decoded payload is \<open>None\<close> when it is absent (or \<open>null\<close>);
  a string is truthy when it is not empty, an array always.
\<close>

definition truthy_str :: "jstring option \<Rightarrow> bool" where
  "truthy_str v = (case v of None \<Rightarrow> False | Some t \<Rightarrow> t \<noteq> [])"

definition truthy_bool :: "bool option \<Rightarrow> bool" where
  "truthy_bool v = (case v of None \<Rightarrow> False | Some b \<Rightarrow> b)"

text \<open>\<open>a || b\<close> on an optional string and on an optional array.\<close>

definition or_str :: "jstring option \<Rightarrow> jstring \<Rightarrow> jstring" where
  "or_str a b = (if truthy_str a then the a else b)"

definition or_list :: "'a list option \<Rightarrow> 'a list \<Rightarrow> 'a list" where
  "or_list a b = (case a of None \<Rightarrow> b | Some xs \<Rightarrow> xs)"

text \<open>\<open>xs[i]\<close>: \<open>undefined\<close> (here \<open>None\<close>) outside the array.\<close>

definition at :: "'a list \<Rightarrow> nat \<Rightarrow> 'a option" where
  "at xs i = (if i < length xs then Some (xs ! i) else None)"

text \<open>
  \<open>xs.indexOf(x)\<close>: the first position of \<open>x\<close>; the source's \<open>-1\<close> is \<open>None\<close>, so
  its test \<open>nextIndex >= 0\<close> is the case \<open>Some\<close>.
\<close>

fun indexOf :: "'a list \<Rightarrow> 'a \<Rightarrow> nat option" where
  "indexOf [] x = None"
| "indexOf (y # ys) x = (if y = x then Some 0 else map_option Suc (indexOf ys x))"

text \<open>\<open>xs.includes(x)\<close>.\<close>

definition includes_elem :: "'a list \<Rightarrow> 'a \<Rightarrow> bool" where
  "includes_elem xs x \<longleftrightarrow> x \<in> set xs"

section \<open>The state of the page\<close>

text \<open>A \<open>File\<close> object is an opaque handle; any such object is truthy.\<close>

type_synonym file_ref = nat

datatype evidence = Evidence (e_text: "jstring option") (e_image: bool)

datatype result = Result (r_passed: "bool option") (r_reason: "jstring option")

record history_entry =
  step :: jstring
  evidence :: evidence
  result :: result
  ts :: jstring

text \<open>
  The \<open>useState\<close> cells of \<open>HomePage\<close> that the four handlers read or write. The field
  \<open>image_file\<close> is the cell \<open>image\<close>. \<open>currentIndex\<close> starts at 0 and only ever
  receives 0, a found position or an increment, so it is a natural number.
\<close>

record session =
  task :: jstring
  goal :: jstring
  taskId :: jstring
  steps :: "jstring list"
  currentStep :: jstring
  currentIndex :: nat
  history :: "history_entry list"
  image_file :: "file_ref option"
  textNote :: jstring
  message :: jstring
  options :: "jstring list"
  loading :: bool

section \<open>The gateway\<close>

text \<open>
  The object that \<open>res.json()\<close> yields, with the fields the handlers read (\<open>data.done\<close>
  is \<open>d_done data\<close>), typed as the gateway's contract gives them.
\<close>

record payload =
  d_error :: "jstring option"
  d_taskId :: "jstring option"
  d_goal :: "jstring option"
  d_steps :: "jstring list option"
  d_currentStep :: "jstring option"
  d_done :: "bool option"
  d_message :: "jstring option"
  d_history :: "history_entry list option"
  d_passed :: "bool option"
  d_reason :: "jstring option"
  d_nextSteps :: "jstring list option"
  d_nextStep :: "jstring option"
  d_options :: "jstring list option"

definition no_fields :: payload where
  "no_fields = \<lparr>d_error = None, d_taskId = None, d_goal = None, d_steps = None,
     d_currentStep = None, d_done = None, d_message = None, d_history = None,
     d_passed = None, d_reason = None, d_nextSteps = None, d_nextStep = None,
     d_options = None\<rparr>"

text \<open>
  The decoded body is \<open>null\<close>, a value that is not an object (a boolean, number, string
  or array, of which only the truthiness matters: every field read gives \<open>undefined\<close>),
  or an object.
\<close>

datatype body = JNull | JOther bool | JObj payload

datatype reply =
    Rejected
  | Response (ok: bool) (data: body)

text \<open>\<open>Rejected\<close>: \<open>fetch\<close> or \<open>res.json()\<close> rejected.\<close>

datatype js_error = FetchFailed | TypeError | Error jstring

definition truthy_body :: "body \<Rightarrow> bool" where
  "truthy_body b = (case b of JNull \<Rightarrow> False | JOther t \<Rightarrow> t | JObj p \<Rightarrow> True)"

text \<open>Reading a field of the body throws a \<open>TypeError\<close> on \<open>null\<close>.\<close>

definition fields :: "body \<Rightarrow> js_error + payload" where
  "fields b = (case b of JNull \<Rightarrow> Inl TypeError | JOther t \<Rightarrow> Inr no_fields | JObj p \<Rightarrow> Inr p)"

datatype request =
    StartReq jstring
  | VerifyReq jstring "file_ref option" "jstring option"
  | DoneReq jstring
  | ActionReq jstring jstring

section \<open>The handlers\<close>

text \<open>
  A handler reads the cells through the variables it closed over when the page was
  rendered (the session \<open>c\<close>), and its setter calls are applied, in order, to the session
  \<open>s\<close> current at that time; an updater function such as \<open>(h) => [...h, e]\<close> reads \<open>s\<close>.
  A handler started from the latest render has \<open>c = s\<close>. It returns the new session and
  the requests it sent. \<open>now\<close> is \<open>new Date().toISOString()\<close>.

  The \<open>try\<close> block of each handler is a function into \<open>js_error + session\<close>: every
  \<open>throw\<close> of the source, and the \<open>TypeError\<close> of a field read on \<open>null\<close>, happens
  before the first setter call of the block, so the \<open>catch\<close> clause continues from the
  session the block started with. \<open>console.error\<close> and \<open>e.preventDefault()\<close> write no
  cell and are left out, as are the camera cells, which these handlers never touch.
\<close>

definition start_try :: "session \<Rightarrow> reply \<Rightarrow> session \<Rightarrow> js_error + session" where
  "start_try c rp s =
     (case rp of
        Rejected \<Rightarrow> Inl FetchFailed
      | Response okay b \<Rightarrow>
          (case fields b of
             Inl e \<Rightarrow> Inl e
           | Inr d \<Rightarrow>
               if \<not> okay then Inl (Error (or_str (d_error d) (js ''Failed to start'')))
               else Inr (s\<lparr>taskId := or_str (d_taskId d) [],
                           goal := or_str (d_goal d) (task c),
                           steps := or_list (d_steps d) [],
                           currentIndex := 0,
                           currentStep := or_str (d_currentStep d)
                             (or_str (case d_steps d of None \<Rightarrow> None | Some xs \<Rightarrow> at xs 0) []),
                           history := [],
                           message := js ''Task started. Follow the steps.'',
                           options := []\<rparr>)))"

definition startTask :: "session \<Rightarrow> reply \<Rightarrow> session \<Rightarrow> session \<times> request list" where
  "startTask c rp s =
     (if trim (task c) = [] then (s, [])
      else
        let s1 = s\<lparr>loading := True, message := [], taskId := []\<rparr>;
            s2 = (case start_try c rp s1 of
                    Inl e \<Rightarrow> s1\<lparr>message := js ''Error starting task''\<rparr>
                  | Inr s' \<Rightarrow> s')
        in (s2\<lparr>loading := False\<rparr>, [StartReq (task c)]))"

definition verify_entry :: "session \<Rightarrow> payload \<Rightarrow> jstring \<Rightarrow> history_entry" where
  "verify_entry c d now =
     \<lparr>step = currentStep c,
      evidence = Evidence (if textNote c = [] then None else Some (textNote c))
                          (image_file c \<noteq> None),
      result = Result (d_passed d) (d_reason d),
      ts = now\<rparr>"

definition verify_passed :: "session \<Rightarrow> payload \<Rightarrow> session \<Rightarrow> session" where
  "verify_passed c d s =
     (case d_nextSteps d of
        Some ns \<Rightarrow> s\<lparr>steps := ns, currentIndex := 0, currentStep := or_str (at ns 0) []\<rparr>
      | None \<Rightarrow>
          if truthy_str (d_nextStep d) then
            (case indexOf (steps c) (the (d_nextStep d)) of
               Some nextIndex \<Rightarrow>
                 s\<lparr>currentIndex := nextIndex, currentStep := the (d_nextStep d)\<rparr>
             | None \<Rightarrow>
                 s\<lparr>steps := (if \<not> includes_elem (steps s) (the (d_nextStep d))
                              then steps s @ [the (d_nextStep d)] else steps s),
                   currentStep := or_str (d_nextStep d) []\<rparr>)
          else
            (let ni = currentIndex c + 1
             in s\<lparr>currentIndex := ni, currentStep := or_str (at (steps c) ni) []\<rparr>))"

definition verify_failed :: "payload \<Rightarrow> session \<Rightarrow> session" where
  "verify_failed d s =
     (let s1 = s\<lparr>message := cross_mark @ js '' '' @ or_str (d_reason d) (js ''Step not satisfied'')\<rparr>;
          s2 = (case d_nextSteps d of
                  Some ns \<Rightarrow> s1\<lparr>steps := ns, currentIndex := 0, currentStep := or_str (at ns 0) []\<rparr>
                | None \<Rightarrow> s1)
      in s2\<lparr>options := or_list (d_options d) []\<rparr>)"

definition verify_response :: "session \<Rightarrow> payload \<Rightarrow> jstring \<Rightarrow> session \<Rightarrow> session" where
  "verify_response c d now s =
     (let s1 =
        (if truthy_bool (d_done d) then
           s\<lparr>message := or_str (d_message d) (js ''All steps completed!''),
             history := or_list (d_history d) (history c),
             steps := [],
             currentStep := [],
             currentIndex := 0,
             options := []\<rparr>
         else
           (let s2 = s\<lparr>history := history s @ [verify_entry c d now]\<rparr>
            in if truthy_bool (d_passed d) then
                 (verify_passed c d s2)
                   \<lparr>message := check_mark @ js '' '' @ or_str (d_reason d) (js ''Step passed'')\<rparr>
               else verify_failed d s2))
      in if truthy_bool (d_passed d) then s1\<lparr>image_file := None, textNote := []\<rparr> else s1)"

definition verify_try :: "session \<Rightarrow> reply \<Rightarrow> jstring \<Rightarrow> session \<Rightarrow> js_error + session" where
  "verify_try c rp now s =
     (case rp of
        Rejected \<Rightarrow> Inl FetchFailed
      | Response okay b \<Rightarrow>
          if \<not> okay \<and> \<not> truthy_body b then Inl (Error (js ''Verification failed''))
          else (case fields b of
                  Inl e \<Rightarrow> Inl e
                | Inr d \<Rightarrow> Inr (verify_response c d now s)))"

definition verifyStep :: "session \<Rightarrow> reply \<Rightarrow> jstring \<Rightarrow> session \<Rightarrow> session \<times> request list" where
  "verifyStep c rp now s =
     (if image_file c = None \<and> trim (textNote c) = [] then
        (s\<lparr>message := js ''Please provide an image or a text note.''\<rparr>, [])
      else
        let s1 = s\<lparr>loading := True, message := [], options := []\<rparr>;
            req = VerifyReq (taskId c) (image_file c)
                    (if trim (textNote c) \<noteq> [] then Some (trim (textNote c)) else None);
            s2 = (case verify_try c rp now s1 of
                    Inl e \<Rightarrow> s1\<lparr>message := js ''Error verifying step''\<rparr>
                  | Inr s' \<Rightarrow> s')
        in (s2\<lparr>loading := False\<rparr>, [req]))"

definition done_entry :: "session \<Rightarrow> jstring \<Rightarrow> history_entry" where
  "done_entry c now =
     \<lparr>step = currentStep c,
      evidence = Evidence (Some (js ''Step marked as done without verification'')) False,
      result = Result (Some True) (Some (js ''Step marked as done'')),
      ts = now\<rparr>"

definition done_response :: "session \<Rightarrow> payload \<Rightarrow> jstring \<Rightarrow> session \<Rightarrow> session" where
  "done_response c d now s =
     (let s1 =
        (if truthy_bool (d_done d) then
           s\<lparr>message := or_str (d_message d) (js ''All steps completed!''),
             history := or_list (d_history d) (history c),
             steps := [],
             currentStep := [],
             currentIndex := 0,
             options := []\<rparr>
         else
           (let s2 = s\<lparr>history := history s @ [done_entry c now]\<rparr>;
                ni = currentIndex c + 1
            in s2\<lparr>currentIndex := ni,
                  currentStep := or_str (at (steps c) ni) [],
                  message := check_mark @ js '' Step marked as done''\<rparr>))
      in s1\<lparr>image_file := None, textNote := []\<rparr>)"

definition done_try :: "session \<Rightarrow> reply \<Rightarrow> jstring \<Rightarrow> session \<Rightarrow> js_error + session" where
  "done_try c rp now s =
     (case rp of
        Rejected \<Rightarrow> Inl FetchFailed
      | Response okay b \<Rightarrow>
          (case fields b of
             Inl e \<Rightarrow> Inl e
           | Inr d \<Rightarrow>
               if \<not> okay then Inl (Error (or_str (d_error d) (js ''Failed to mark step as done'')))
               else Inr (done_response c d now s)))"

definition doneStep :: "session \<Rightarrow> reply \<Rightarrow> jstring \<Rightarrow> session \<Rightarrow> session \<times> request list" where
  "doneStep c rp now s =
     (let s1 = s\<lparr>loading := True, message := [], options := []\<rparr>;
          s2 = (case done_try c rp now s1 of
                  Inl e \<Rightarrow> s1\<lparr>message := js ''Error marking step as done''\<rparr>
                | Inr s' \<Rightarrow> s')
      in (s2\<lparr>loading := False\<rparr>, [DoneReq (taskId c)]))"

definition option_response :: "jstring \<Rightarrow> payload \<Rightarrow> session \<Rightarrow> session" where
  "option_response opt d s =
     (if opt = js ''quit'' then
        s\<lparr>message := or_str (d_message d) (js ''Task quit''),
          goal := [],
          taskId := [],
          steps := [],
          currentStep := [],
          currentIndex := 0,
          history := [],
          options := []\<rparr>
      else if opt = js ''restart'' then
        s\<lparr>steps := or_list (d_steps d) [],
          currentStep := or_str (d_currentStep d)
            (or_str (case d_steps d of None \<Rightarrow> None | Some xs \<Rightarrow> at xs 0) []),
          currentIndex := 0,
          history := [],
          message := js ''Task restarted with new plan'',
          options := []\<rparr>
      else s\<lparr>message := or_str (d_message d) (js ''Action applied: '' @ opt)\<rparr>)"

definition option_try :: "jstring \<Rightarrow> reply \<Rightarrow> session \<Rightarrow> js_error + session" where
  "option_try opt rp s =
     (case rp of
        Rejected \<Rightarrow> Inl FetchFailed
      | Response okay b \<Rightarrow>
          (case fields b of
             Inl e \<Rightarrow> Inl e
           | Inr d \<Rightarrow>
               if \<not> okay then Inl (Error (or_str (d_error d) (js ''Action failed'')))
               else Inr (option_response opt d s)))"

definition applyOption :: "session \<Rightarrow> jstring \<Rightarrow> reply \<Rightarrow> session \<Rightarrow> session \<times> request list" where
  "applyOption c opt rp s =
     (if opt = [] then (s, [])
      else
        let s1 = s\<lparr>loading := True, message := []\<rparr>;
            s2 = (case option_try opt rp s1 of
                    Inl e \<Rightarrow> s1\<lparr>message := js ''Error applying action''\<rparr>
                  | Inr s' \<Rightarrow> s')
        in (s2\<lparr>loading := False\<rparr>, [ActionReq opt (taskId c)]))"

section \<open>Sequences of transitions\<close>

text \<open>
  One transition is one handler run to its end from the latest render (\<open>c = s\<close>); the
  \<open>loading\<close> flag disables the buttons while a handler is pending.
\<close>

datatype event =
    StartTask reply
  | VerifyStep reply jstring
  | DoneStep reply jstring
  | ApplyOption jstring reply










section \<open>A running example\<close>

text \<open>
  The tea scenario: the first step has been verified, the second is current and a text
  note is attached.
\<close>

definition t0 :: jstring where
  "t0 = js ''2025-01-01T10:00:00.000Z''"

definition tea :: session where
  "tea = \<lparr>task = js ''make tea'', goal = js ''make tea'', taskId = js ''t-1'',
     steps = [js ''boil water'', js ''steep tea'', js ''serve''],
     currentStep = js ''steep tea'', currentIndex = 1,
     history = [\<lparr>step = js ''boil water'',
                 evidence = Evidence (Some (js ''kettle is on'')) False,
                 result = Result (Some True) (Some (js ''looks good'')),
                 ts = js ''2025-01-01T09:55:00.000Z''\<rparr>],
     image_file = None, textNote = js ''leaves are in'', message = [], options = [],
     loading = False\<rparr>"

definition evid :: "file_ref option \<Rightarrow> jstring \<Rightarrow> session" where
  "evid img note = tea\<lparr>image_file := img, textNote := note\<rparr>"

definition no_id :: session where
  "no_id = tea\<lparr>taskId := []\<rparr>"

definition all_done :: payload where
  "all_done = no_fields\<lparr>d_done := Some True, d_passed := Some False\<rparr>"

definition pass_plain :: payload where
  "pass_plain = no_fields\<lparr>d_passed := Some True, d_reason := Some (js ''tea is steeping'')\<rparr>"

definition pass_named :: "jstring \<Rightarrow> payload" where
  "pass_named x = no_fields\<lparr>d_passed := Some True, d_nextStep := Some x\<rparr>"

definition fail_options :: payload where
  "fail_options = no_fields\<lparr>d_passed := Some False,
     d_reason := Some (js ''no evidence of steeping''),
     d_options := Some [js ''retry'', js ''skip'']\<rparr>"

definition fail_replan :: payload where
  "fail_replan = fail_options\<lparr>d_nextSteps := Some [js ''find a kettle'', js ''boil water'']\<rparr>"

definition started :: payload where
  "started = no_fields\<lparr>d_taskId := Some (js ''t-2''),
     d_steps := Some [js ''grind beans'', js ''brew'']\<rparr>"

definition refused :: payload where
  "refused = no_fields\<lparr>d_error := Some (js ''unknown task'')\<rparr>"

text \<open>
  A session in which the plan has meanwhile been given a new first step; the page as it
  is first rendered, with a task typed in; the start of a task followed by one step
  marked as done; and a run of four transitions from the tea session that only add to
  the history.
\<close>

definition milk_first :: session where
  "milk_first = tea\<lparr>steps := js ''add milk'' # steps tea, currentIndex := 2\<rparr>"

definition fresh :: session where
  "fresh = \<lparr>task = js ''make coffee'', goal = [], taskId = [], steps = [], currentStep = [],
     currentIndex = 0, history = [], image_file = None, textNote = [], message = [],
     options = [], loading = False\<rparr>"

definition warm_up :: "event list" where
  "warm_up = [StartTask (Response True (JObj started)),
              DoneStep (Response True (JObj no_fields)) t0]"

definition quiet_run :: "event list" where
  "quiet_run = [VerifyStep (Response True (JObj fail_options)) t0,
                ApplyOption (js ''retry'') (Response True (JObj no_fields)),
                ApplyOption (js ''quit'') Rejected,
                DoneStep (Response True (JObj no_fields)) t0]"

section \<open>Auxiliary facts\<close>

lemma trim_Nil_iff: "trim t = [] \<longleftrightarrow> (\<forall>c \<in> set t. isWhiteSpace c)"
proof
  assume "trim t = []"
  then have "dropWhile isWhiteSpace (rev (dropWhile isWhiteSpace t)) = []"
    by (simp add: trim_def)
  then have "\<forall>c \<in> set (dropWhile isWhiteSpace t). isWhiteSpace c"
    by (simp add: dropWhile_eq_Nil_conv)
  moreover have "\<forall>c \<in> set (takeWhile isWhiteSpace t). isWhiteSpace c"
    by (auto dest: set_takeWhileD)
  moreover have "set t = set (takeWhile isWhiteSpace t) \<union> set (dropWhile isWhiteSpace t)"
    by (metis set_append takeWhile_dropWhile_id)
  ultimately show "\<forall>c \<in> set t. isWhiteSpace c" by blast
next
  assume "\<forall>c \<in> set t. isWhiteSpace c"
  then have "dropWhile isWhiteSpace t = []" by (induction t) auto
  then show "trim t = []" by (auto simp: trim_def dest: set_dropWhileD)
qed

lemma indexOf_None_iff: "indexOf xs x = None \<longleftrightarrow> x \<notin> set xs"
  by (induction xs) auto

lemma indexOf_Some_first:
  "indexOf xs x = Some i \<Longrightarrow> i < length xs \<and> xs ! i = x \<and> (\<forall>j < i. xs ! j \<noteq> x)"
proof (induction xs arbitrary: i)
  case Nil
  then show ?case by simp
next
  case (Cons y ys)
  show ?case
  proof (cases "y = x")
    case True
    with Cons.prems show ?thesis by simp
  next
    case False
    with Cons.prems obtain k where k: "indexOf ys x = Some k" "i = Suc k" by auto
    from Cons.IH [OF k(1)] have "k < length ys" "ys ! k = x" "\<forall>j < k. ys ! j \<noteq> x" by auto
    with False k(2) show ?thesis by (auto simp: nth_Cons split: nat.splits)
  qed
qed

lemma truthy_bool_iff: "truthy_bool v \<longleftrightarrow> v = Some True"
  by (cases v) (simp_all add: truthy_bool_def)

lemma or_str_at: "or_str (at xs i) [] = (if i < length xs then xs ! i else [])"
  by (simp add: or_str_def at_def truthy_str_def)

lemma or_str_at0: "or_str (at ns 0) [] = (case ns of [] \<Rightarrow> [] | n # _ \<Rightarrow> n)"
  by (simp add: or_str_def at_def truthy_str_def split: list.splits)





















text \<open>Facts about the running example.\<close>

lemma tea_has_evidence: "trim (textNote tea) \<noteq> []"
  by (simp add: tea_def js_def trim_def isWhiteSpace_def)

lemma tea_steps: "steps tea = [js ''boil water'', js ''steep tea'', js ''serve'']"
  by (simp add: tea_def)

lemmas example_defs = tea_def evid_def no_id_def all_done_def pass_plain_def pass_named_def
  fail_options_def fail_replan_def started_def refused_def no_fields_def t0_def
  milk_first_def quiet_run_def fresh_def warm_up_def


lemmas handler_defs = verifyStep_def verify_try_def verify_response_def verify_passed_def
  verify_failed_def verify_entry_def doneStep_def done_try_def done_response_def done_entry_def
  applyOption_def option_try_def option_response_def startTask_def start_try_def fields_def
  truthy_body_def truthy_bool_def truthy_str_def or_str_def or_list_def at_def
  includes_elem_def check_mark_def cross_mark_def

section \<open>Reconciling a verification response\<close>

text \<open>
  In the theorems on \<open>verifyStep\<close> a response has arrived, so the request was sent:
  an image or a text note that is not blank was attached. The HTTP status \<open>okay\<close> is
  arbitrary, since \<open>verifyStep\<close> reconciles every decoded object.
\<close>

text \<open>
  C1. When the response has \<open>done\<close> true, whatever \<open>passed\<close> is, \<open>history\<close> becomes the
  history of the response when it carries one and stays the local one otherwise,
  \<open>steps\<close> and \<open>currentStep\<close> are emptied, \<open>currentIndex\<close> is 0 and \<open>options\<close> is
  emptied.
\<close>

theorem verifyStep_done_terminal:
  assumes "image_file s \<noteq> None \<or> trim (textNote s) \<noteq> []"
    and "d_done d = Some True"
  shows "let s' = fst (verifyStep s (Response okay (JObj d)) now s)
         in history s' = (case d_history d of Some h \<Rightarrow> h | None \<Rightarrow> history s)
            \<and> steps s' = [] \<and> currentStep s' = [] \<and> currentIndex s' = 0 \<and> options s' = []"
  using assms
  by (auto simp: verifyStep_def verify_try_def verify_response_def fields_def truthy_body_def
      truthy_bool_iff or_list_def Let_def split: option.splits)

theorem verifyStep_done_terminal_witness:
  "trim (textNote tea) \<noteq> []
   \<and> d_done all_done = Some True
   \<and> d_passed all_done = Some False
   \<and> history (fst (verifyStep tea (Response True (JObj all_done)) t0 tea)) = history tea
   \<and> steps (fst (verifyStep tea (Response True (JObj all_done)) t0 tea)) = []
   \<and> currentStep (fst (verifyStep tea (Response True (JObj all_done)) t0 tea)) = []
   \<and> currentIndex (fst (verifyStep tea (Response True (JObj all_done)) t0 tea)) = 0
   \<and> options (fst (verifyStep tea (Response True (JObj all_done)) t0 tea)) = []"
proof -
  have h1: "image_file tea \<noteq> None \<or> trim (textNote tea) \<noteq> []"
    by (simp add: tea_has_evidence)
  have h2: "d_done all_done = Some True"
    by (simp add: all_done_def)
  have h3: "d_passed all_done = Some False" "d_history all_done = None"
    by (simp_all add: all_done_def no_fields_def)
  from verifyStep_done_terminal [OF h1 h2, of True t0] tea_has_evidence h2 h3
  show ?thesis by (simp add: Let_def)
qed

text \<open>
  C2. When \<open>done\<close> is absent or false, \<open>passed\<close> is true and the response has neither a
  \<open>nextSteps\<close> list nor a \<open>nextStep\<close> string (an empty string counts as none),
  \<open>currentIndex\<close> grows by exactly one, \<open>steps\<close> is unchanged and \<open>currentStep\<close> is the
  element of \<open>steps\<close> at the new index, or empty when the new index is past the end.
\<close>

theorem verifyStep_passed_increment:
  assumes "image_file s \<noteq> None \<or> trim (textNote s) \<noteq> []"
    and "d_done d \<noteq> Some True"
    and "d_passed d = Some True"
    and "d_nextSteps d = None"
    and "d_nextStep d = None \<or> d_nextStep d = Some []"
  shows "let s' = fst (verifyStep s (Response okay (JObj d)) now s)
         in currentIndex s' = currentIndex s + 1
            \<and> steps s' = steps s
            \<and> currentStep s' = (if currentIndex s + 1 < length (steps s)
                                then steps s ! (currentIndex s + 1) else [])"
  using assms
  by (auto simp: verifyStep_def verify_try_def verify_response_def verify_passed_def fields_def
      truthy_body_def truthy_bool_iff truthy_str_def or_str_at Let_def split: option.splits)

theorem verifyStep_passed_increment_witness:
  "trim (textNote tea) \<noteq> []
   \<and> d_done pass_plain \<noteq> Some True
   \<and> d_passed pass_plain = Some True
   \<and> d_nextSteps pass_plain = None
   \<and> d_nextStep pass_plain = None
   \<and> currentIndex tea = 1
   \<and> currentIndex (fst (verifyStep tea (Response True (JObj pass_plain)) t0 tea)) = 2
   \<and> steps (fst (verifyStep tea (Response True (JObj pass_plain)) t0 tea)) = steps tea
   \<and> currentStep (fst (verifyStep tea (Response True (JObj pass_plain)) t0 tea)) = js ''serve''"
proof -
  have h1: "image_file tea \<noteq> None \<or> trim (textNote tea) \<noteq> []"
    by (simp add: tea_has_evidence)
  have h2: "d_done pass_plain \<noteq> Some True" and h3: "d_passed pass_plain = Some True"
    and h4: "d_nextSteps pass_plain = None" and h5: "d_nextStep pass_plain = None"
    by (simp_all add: pass_plain_def no_fields_def)
  have h6: "d_nextStep pass_plain = None \<or> d_nextStep pass_plain = Some []"
    using h5 by simp
  have t: "currentIndex tea = 1" "length (steps tea) = 3" "steps tea ! Suc (Suc 0) = js ''serve''"
    by (simp_all add: tea_def)
  from verifyStep_passed_increment [OF h1 h2 h3 h4 h6, of True t0] tea_has_evidence h2 h3 h4 h5 t
  show ?thesis by (simp add: Let_def)
qed

text \<open>
  C3 says that every \<open>passed\<close> response with no \<open>nextSteps\<close> list and a \<open>nextStep\<close>
  string moves to that string. The source tests \<open>data.nextStep\<close> for truthiness, so an
  empty string is treated as no string at all: the plain increment runs, nothing is
  appended and \<open>currentStep\<close> is read from the list.
\<close>

theorem verifyStep_empty_nextStep_counterexample:
  "trim (textNote tea) \<noteq> []
   \<and> d_passed (pass_named []) = Some True
   \<and> d_nextSteps (pass_named []) = None
   \<and> d_nextStep (pass_named []) = Some []
   \<and> [] \<notin> set (steps tea)
   \<and> steps (fst (verifyStep tea (Response True (JObj (pass_named []))) t0 tea)) = steps tea
   \<and> steps (fst (verifyStep tea (Response True (JObj (pass_named []))) t0 tea)) \<noteq> steps tea @ [[]]
   \<and> currentIndex (fst (verifyStep tea (Response True (JObj (pass_named []))) t0 tea)) = 2
   \<and> currentStep (fst (verifyStep tea (Response True (JObj (pass_named []))) t0 tea)) = js ''serve''
   \<and> js ''serve'' \<noteq> []"
  by (simp add: handler_defs example_defs js_def trim_def isWhiteSpace_def)

text \<open>
  C3, amended. When \<open>done\<close> is absent or false, \<open>passed\<close> is true, there is no
  \<open>nextSteps\<close> list and \<open>nextStep\<close> is a string that is not empty: if the string occurs
  in the local \<open>steps\<close>, \<open>currentIndex\<close> becomes its first position, wherever that is,
  \<open>currentStep\<close> becomes the string and \<open>steps\<close> is unchanged; if it does not occur, it is
  appended to \<open>steps\<close>, where it then occurs exactly once, and becomes \<open>currentStep\<close>.
\<close>

theorem verifyStep_nextStep:
  assumes "image_file s \<noteq> None \<or> trim (textNote s) \<noteq> []"
    and "d_done d \<noteq> Some True"
    and "d_passed d = Some True"
    and "d_nextSteps d = None"
    and "d_nextStep d = Some x"
    and "x \<noteq> []"
  shows "let s' = fst (verifyStep s (Response okay (JObj d)) now s)
         in (x \<in> set (steps s) \<longrightarrow>
               (\<exists>i < length (steps s). steps s ! i = x \<and> (\<forall>j < i. steps s ! j \<noteq> x)
                  \<and> currentIndex s' = i)
               \<and> currentStep s' = x \<and> steps s' = steps s)
            \<and> (x \<notin> set (steps s) \<longrightarrow>
                 steps s' = steps s @ [x] \<and> count_list (steps s') x = 1 \<and> currentStep s' = x)"
proof -
  let ?s' = "fst (verifyStep s (Response okay (JObj d)) now s)"
  have found: "currentIndex ?s' = i \<and> currentStep ?s' = x \<and> steps ?s' = steps s"
    if "indexOf (steps s) x = Some i" for i
    using assms that
    by (auto simp: verifyStep_def verify_try_def verify_response_def verify_passed_def fields_def
        truthy_body_def truthy_bool_iff truthy_str_def Let_def)
  have missing: "steps ?s' = steps s @ [x] \<and> currentStep ?s' = x"
    if "indexOf (steps s) x = None"
    using assms that that [unfolded indexOf_None_iff]
    by (auto simp: verifyStep_def verify_try_def verify_response_def verify_passed_def fields_def
        truthy_body_def truthy_bool_iff truthy_str_def or_str_def includes_elem_def Let_def)
  have a: "(\<exists>i < length (steps s). steps s ! i = x \<and> (\<forall>j < i. steps s ! j \<noteq> x)
              \<and> currentIndex ?s' = i) \<and> currentStep ?s' = x \<and> steps ?s' = steps s"
    if "x \<in> set (steps s)"
  proof -
    from that obtain i where i: "indexOf (steps s) x = Some i"
      by (cases "indexOf (steps s) x") (simp_all add: indexOf_None_iff)
    from indexOf_Some_first [OF i] found [OF i] show ?thesis by blast
  qed
  have b: "steps ?s' = steps s @ [x] \<and> count_list (steps ?s') x = 1 \<and> currentStep ?s' = x"
    if "x \<notin> set (steps s)"
  proof -
    from that have "indexOf (steps s) x = None" by (simp add: indexOf_None_iff)
    from missing [OF this] that show ?thesis by (simp add: count_list_0_iff)
  qed
  from a b show ?thesis by (simp add: Let_def)
qed

theorem verifyStep_nextStep_witness:
  "trim (textNote tea) \<noteq> []
   \<and> js ''boil water'' \<in> set (steps tea)
   \<and> currentIndex tea = 1
   \<and> currentIndex (fst (verifyStep tea (Response True (JObj (pass_named (js ''boil water'')))) t0 tea)) = 0
   \<and> currentStep (fst (verifyStep tea (Response True (JObj (pass_named (js ''boil water'')))) t0 tea))
       = js ''boil water''
   \<and> js ''add milk'' \<notin> set (steps tea)
   \<and> steps (fst (verifyStep tea (Response True (JObj (pass_named (js ''add milk'')))) t0 tea))
       = [js ''boil water'', js ''steep tea'', js ''serve'', js ''add milk'']
   \<and> currentStep (fst (verifyStep tea (Response True (JObj (pass_named (js ''add milk'')))) t0 tea))
       = js ''add milk''"
proof -
  have h1: "image_file tea \<noteq> None \<or> trim (textNote tea) \<noteq> []"
    by (simp add: tea_has_evidence)
  have p: "d_done (pass_named x) \<noteq> Some True" "d_passed (pass_named x) = Some True"
    "d_nextSteps (pass_named x) = None" "d_nextStep (pass_named x) = Some x" for x
    by (simp_all add: pass_named_def no_fields_def)
  have n1: "js ''boil water'' \<noteq> []" and n2: "js ''add milk'' \<noteq> []"
    by (simp_all add: js_def)
  have m1: "js ''boil water'' \<in> set (steps tea)"
    by (simp add: tea_steps)
  have m2: "js ''add milk'' \<notin> set (steps tea)"
    by (simp add: tea_steps js_def)
  have f: "\<And>i. i < length (steps tea) \<Longrightarrow> steps tea ! i = js ''boil water''
      \<Longrightarrow> \<forall>j < i. steps tea ! j \<noteq> js ''boil water'' \<Longrightarrow> i = 0"
    by (metis tea_steps nth_Cons_0 not_gr_zero)
  from verifyStep_nextStep [OF h1 p n1, of True t0] m1 f
  have a: "currentIndex (fst (verifyStep tea (Response True (JObj (pass_named (js ''boil water'')))) t0 tea)) = 0
    \<and> currentStep (fst (verifyStep tea (Response True (JObj (pass_named (js ''boil water'')))) t0 tea))
       = js ''boil water''"
    by (auto simp: Let_def)
  from verifyStep_nextStep [OF h1 p n2, of True t0] m2
  have b: "steps (fst (verifyStep tea (Response True (JObj (pass_named (js ''add milk'')))) t0 tea))
       = [js ''boil water'', js ''steep tea'', js ''serve'', js ''add milk'']
    \<and> currentStep (fst (verifyStep tea (Response True (JObj (pass_named (js ''add milk'')))) t0 tea))
       = js ''add milk''"
    by (simp add: Let_def tea_steps)
  have c: "currentIndex tea = 1" by (simp add: tea_def)
  from a b c m1 m2 tea_has_evidence show ?thesis by simp
qed

text \<open>
  C10. On the fallback path (\<open>passed\<close> true, no \<open>nextSteps\<close> list, a \<open>nextStep\<close> string
  that \<open>indexOf\<close> does not find in the steps the handler closed over) the branch writes
  \<open>steps\<close> and \<open>currentStep\<close> and nothing else, so \<open>currentIndex\<close> keeps its value; the
  updater of \<open>steps\<close> appends the string unless the list it is applied to already holds
  it at any position. The list the updater sees is that of the session \<open>s\<close>, which may
  differ from the list of \<open>c\<close> that was searched.
\<close>

theorem verifyStep_fallback_frame:
  assumes "image_file c \<noteq> None \<or> trim (textNote c) \<noteq> []"
    and "d_done d \<noteq> Some True"
    and "d_passed d = Some True"
    and "d_nextSteps d = None"
    and "d_nextStep d = Some x"
    and "x \<noteq> []"
    and "x \<notin> set (steps c)"
  shows "verify_passed c d s =
           s\<lparr>steps := (if x \<in> set (steps s) then steps s else steps s @ [x]), currentStep := x\<rparr>
         \<and> (let s' = fst (verifyStep c (Response okay (JObj d)) now s)
            in currentIndex s' = currentIndex s
               \<and> steps s' = (if x \<in> set (steps s) then steps s else steps s @ [x])
               \<and> currentStep s' = x)"
proof -
  from assms(7) have nf: "indexOf (steps c) x = None" by (simp add: indexOf_None_iff)
  have p: "verify_passed c d t =
           t\<lparr>steps := (if x \<in> set (steps t) then steps t else steps t @ [x]), currentStep := x\<rparr>" for t
    using assms(4,5,6) nf
    by (simp add: verify_passed_def truthy_str_def or_str_def includes_elem_def)
  have "verify_response c d now t =
          (verify_passed c d (t\<lparr>history := history t @ [verify_entry c d now]\<rparr>))
            \<lparr>message := check_mark @ js '' '' @ or_str (d_reason d) (js ''Step passed''),
             image_file := None, textNote := []\<rparr>" for t
    using assms(2,3) by (auto simp: verify_response_def truthy_bool_iff Let_def)
  then have r: "currentIndex (verify_response c d now t) = currentIndex t
      \<and> steps (verify_response c d now t) = (if x \<in> set (steps t) then steps t else steps t @ [x])
      \<and> currentStep (verify_response c d now t) = x" for t
    by (simp add: p)
  have "fst (verifyStep c (Response okay (JObj d)) now s) =
          (verify_response c d now (s\<lparr>loading := True, message := [], options := []\<rparr>))
            \<lparr>loading := False\<rparr>"
    using assms(1) by (auto simp: verifyStep_def verify_try_def fields_def truthy_body_def Let_def)
  with r p show ?thesis by (simp add: Let_def)
qed

theorem verifyStep_fallback_frame_witness:
  "trim (textNote tea) \<noteq> []
   \<and> js ''add milk'' \<notin> set (steps tea)
   \<and> steps milk_first = [js ''add milk'', js ''boil water'', js ''steep tea'', js ''serve'']
   \<and> currentIndex milk_first = 2
   \<and> currentIndex (fst (verifyStep tea (Response True (JObj (pass_named (js ''add milk'')))) t0 milk_first)) = 2
   \<and> steps (fst (verifyStep tea (Response True (JObj (pass_named (js ''add milk'')))) t0 milk_first))
       = [js ''add milk'', js ''boil water'', js ''steep tea'', js ''serve'']
   \<and> currentStep (fst (verifyStep tea (Response True (JObj (pass_named (js ''add milk'')))) t0 milk_first))
       = js ''add milk''
   \<and> currentIndex (fst (verifyStep tea (Response True (JObj (pass_named (js ''add milk'')))) t0 tea)) = 1
   \<and> steps (fst (verifyStep tea (Response True (JObj (pass_named (js ''add milk'')))) t0 tea))
       = [js ''boil water'', js ''steep tea'', js ''serve'', js ''add milk'']"
proof -
  have h1: "image_file tea \<noteq> None \<or> trim (textNote tea) \<noteq> []"
    by (simp add: tea_has_evidence)
  have p: "d_done (pass_named x) \<noteq> Some True" "d_passed (pass_named x) = Some True"
    "d_nextSteps (pass_named x) = None" "d_nextStep (pass_named x) = Some x" for x
    by (simp_all add: pass_named_def no_fields_def)
  have n: "js ''add milk'' \<noteq> []"
    by (simp add: js_def)
  have m: "js ''add milk'' \<notin> set (steps tea)"
    by (simp add: tea_steps js_def)
  have l: "steps milk_first = [js ''add milk'', js ''boil water'', js ''steep tea'', js ''serve'']"
    "currentIndex milk_first = 2" "currentIndex tea = 1"
    by (simp_all add: milk_first_def tea_def)
  from verifyStep_fallback_frame [OF h1 p n m, of milk_first True t0]
    verifyStep_fallback_frame [OF h1 p n m, of tea True t0] m l tea_has_evidence
  show ?thesis by (simp add: Let_def tea_steps)
qed

text \<open>
  C4 says that a response with \<open>passed\<close> false never changes \<open>currentIndex\<close> or
  \<open>currentStep\<close>. The source adopts a \<open>nextSteps\<close> list on this branch too and restarts
  at its head.
\<close>

theorem verifyStep_not_passed_counterexample:
  "trim (textNote tea) \<noteq> []
   \<and> d_done fail_replan = None
   \<and> d_passed fail_replan = Some False
   \<and> currentIndex tea = 1
   \<and> currentIndex (fst (verifyStep tea (Response True (JObj fail_replan)) t0 tea)) = 0
   \<and> currentStep tea = js ''steep tea''
   \<and> currentStep (fst (verifyStep tea (Response True (JObj fail_replan)) t0 tea))
       = js ''find a kettle''
   \<and> js ''find a kettle'' \<noteq> js ''steep tea''"
  by (simp add: handler_defs example_defs js_def trim_def isWhiteSpace_def)

text \<open>
  C4, amended. When \<open>done\<close> is absent or false and \<open>passed\<close> is false, \<open>options\<close> becomes
  the option list of the response, or empty when there is none; \<open>currentIndex\<close>,
  \<open>currentStep\<close> and \<open>steps\<close> are unchanged when the response has no \<open>nextSteps\<close> list,
  and otherwise \<open>steps\<close> becomes that list, \<open>currentIndex\<close> 0 and \<open>currentStep\<close> its
  first element (empty for an empty list).
\<close>

theorem verifyStep_not_passed:
  assumes "image_file s \<noteq> None \<or> trim (textNote s) \<noteq> []"
    and "d_done d \<noteq> Some True"
    and "d_passed d = Some False"
  shows "let s' = fst (verifyStep s (Response okay (JObj d)) now s)
         in options s' = (case d_options d of Some os \<Rightarrow> os | None \<Rightarrow> [])
            \<and> (case d_nextSteps d of
                  None \<Rightarrow> currentIndex s' = currentIndex s \<and> currentStep s' = currentStep s
                          \<and> steps s' = steps s
                | Some ns \<Rightarrow> steps s' = ns \<and> currentIndex s' = 0
                          \<and> currentStep s' = (case ns of [] \<Rightarrow> [] | n # _ \<Rightarrow> n))"
  using assms
  by (auto simp: verifyStep_def verify_try_def verify_response_def verify_failed_def fields_def
      truthy_body_def truthy_bool_iff or_list_def or_str_at0 Let_def split: option.splits)

theorem verifyStep_not_passed_witness:
  "trim (textNote tea) \<noteq> []
   \<and> d_done fail_options \<noteq> Some True
   \<and> d_passed fail_options = Some False
   \<and> d_nextSteps fail_options = None
   \<and> options (fst (verifyStep tea (Response True (JObj fail_options)) t0 tea))
       = [js ''retry'', js ''skip'']
   \<and> currentIndex (fst (verifyStep tea (Response True (JObj fail_options)) t0 tea))
       = currentIndex tea
   \<and> currentStep (fst (verifyStep tea (Response True (JObj fail_options)) t0 tea))
       = currentStep tea
   \<and> d_passed fail_replan = Some False
   \<and> options (fst (verifyStep tea (Response True (JObj fail_replan)) t0 tea))
       = [js ''retry'', js ''skip'']
   \<and> steps (fst (verifyStep tea (Response True (JObj fail_replan)) t0 tea))
       = [js ''find a kettle'', js ''boil water'']
   \<and> currentIndex (fst (verifyStep tea (Response True (JObj fail_replan)) t0 tea)) = 0
   \<and> currentStep (fst (verifyStep tea (Response True (JObj fail_replan)) t0 tea))
       = js ''find a kettle''"
proof -
  have h1: "image_file tea \<noteq> None \<or> trim (textNote tea) \<noteq> []"
    by (simp add: tea_has_evidence)
  have a: "d_done fail_options \<noteq> Some True" "d_passed fail_options = Some False"
    and a': "d_nextSteps fail_options = None"
      "d_options fail_options = Some [js ''retry'', js ''skip'']"
    by (simp_all add: fail_options_def no_fields_def)
  have b: "d_done fail_replan \<noteq> Some True" "d_passed fail_replan = Some False"
    and b': "d_nextSteps fail_replan = Some [js ''find a kettle'', js ''boil water'']"
      "d_options fail_replan = Some [js ''retry'', js ''skip'']"
    by (simp_all add: fail_replan_def fail_options_def no_fields_def)
  from verifyStep_not_passed [OF h1 a, of True t0] verifyStep_not_passed [OF h1 b, of True t0]
    a a' b b' tea_has_evidence
  show ?thesis by (simp add: Let_def)
qed

section \<open>The preconditions of a verification\<close>

text \<open>
  C6 says that \<open>verifyStep\<close> fails without a request when \<open>taskId\<close> is empty. The source
  has no test of \<open>taskId\<close>: with a note attached the request goes out with the empty
  identifier and the response is reconciled as usual.
\<close>

theorem verifyStep_empty_taskId_counterexample:
  "taskId no_id = []
   \<and> snd (verifyStep no_id (Response True (JObj pass_plain)) t0 no_id)
       = [VerifyReq [] None (Some (js ''leaves are in''))]
   \<and> currentIndex (fst (verifyStep no_id (Response True (JObj pass_plain)) t0 no_id)) = 2
   \<and> currentIndex no_id = 1"
  by (simp add: handler_defs example_defs js_def trim_def isWhiteSpace_def)

text \<open>
  C6, amended. \<open>verifyStep\<close> requires evidence only. Without an image and with a note
  that is blank after trimming it sends no request and changes no cell other than the
  displayed message; otherwise it sends one request carrying \<open>taskId\<close> as it is, empty
  or not, the image and the trimmed note.
\<close>

theorem verifyStep_preconditions:
  "(image_file s = None \<and> trim (textNote s) = [] \<longrightarrow>
      verifyStep s rp now s =
        (s\<lparr>message := js ''Please provide an image or a text note.''\<rparr>, []))
   \<and> (image_file s \<noteq> None \<or> trim (textNote s) \<noteq> [] \<longrightarrow>
      snd (verifyStep s rp now s) =
        [VerifyReq (taskId s) (image_file s)
           (if trim (textNote s) \<noteq> [] then Some (trim (textNote s)) else None)])"
  by (auto simp: verifyStep_def Let_def)

theorem verifyStep_preconditions_witness:
  "image_file (evid None (js ''   '')) = None
   \<and> trim (textNote (evid None (js ''   ''))) = []
   \<and> verifyStep (evid None (js ''   '')) (Response True (JObj pass_plain)) t0 (evid None (js ''   ''))
       = ((evid None (js ''   ''))\<lparr>message := js ''Please provide an image or a text note.''\<rparr>, [])
   \<and> trim (textNote no_id) = js ''leaves are in''
   \<and> taskId no_id = []
   \<and> snd (verifyStep no_id (Response True (JObj pass_plain)) t0 no_id)
       = [VerifyReq [] None (Some (js ''leaves are in''))]"
proof -
  have a: "image_file (evid None (js ''   '')) = None" "trim (textNote (evid None (js ''   ''))) = []"
    by (simp_all add: evid_def js_def trim_def isWhiteSpace_def)
  have b: "trim (textNote no_id) = js ''leaves are in''" "taskId no_id = []"
    "image_file no_id = None" "js ''leaves are in'' \<noteq> []"
    by (simp_all add: no_id_def tea_def js_def trim_def isWhiteSpace_def)
  from verifyStep_preconditions [of "evid None (js ''   '')" "Response True (JObj pass_plain)" t0]
    verifyStep_preconditions [of no_id "Response True (JObj pass_plain)" t0] a b
  show ?thesis by simp
qed

text \<open>
  C7. The evidence is rejected, with no request sent and the message asking for an image
  or a note, exactly when there is no image and every code unit of the note is white
  space (so the note is empty after trimming). The four cases of the specification are
  in the witness.
\<close>

theorem evidence_rejected_iff:
  "(snd (verifyStep s rp now s) = []
      \<longleftrightarrow> image_file s = None \<and> (\<forall>ch \<in> set (textNote s). isWhiteSpace ch))
   \<and> (snd (verifyStep s rp now s) = [] \<longrightarrow>
        fst (verifyStep s rp now s) = s\<lparr>message := js ''Please provide an image or a text note.''\<rparr>)"
  by (auto simp: verifyStep_def Let_def trim_Nil_iff [symmetric])

theorem evidence_rejected_iff_witness:
  "snd (verifyStep (evid None []) (Response True (JObj pass_plain)) t0 (evid None [])) = []
   \<and> fst (verifyStep (evid None []) (Response True (JObj pass_plain)) t0 (evid None []))
       = (evid None [])\<lparr>message := js ''Please provide an image or a text note.''\<rparr>
   \<and> snd (verifyStep (evid None (js ''   '')) (Response True (JObj pass_plain)) t0 (evid None (js ''   ''))) = []
   \<and> fst (verifyStep (evid None (js ''   '')) (Response True (JObj pass_plain)) t0 (evid None (js ''   '')))
       = (evid None (js ''   ''))\<lparr>message := js ''Please provide an image or a text note.''\<rparr>
   \<and> snd (verifyStep (evid None (js ''ok'')) (Response True (JObj pass_plain)) t0 (evid None (js ''ok''))) \<noteq> []
   \<and> snd (verifyStep (evid (Some 7) []) (Response True (JObj pass_plain)) t0 (evid (Some 7) [])) \<noteq> []"
proof -
  have a: "image_file (evid None t) = None" "image_file (evid (Some 7) t) = Some 7"
    "textNote (evid i t) = t" for i t
    by (simp_all add: evid_def)
  have w: "\<forall>ch \<in> set (js ''   ''). isWhiteSpace ch" "\<not> (\<forall>ch \<in> set (js ''ok''). isWhiteSpace ch)"
    by (simp_all add: js_def isWhiteSpace_def)
  from evidence_rejected_iff [of "evid None []" "Response True (JObj pass_plain)" t0]
    evidence_rejected_iff [of "evid None (js ''   '')" "Response True (JObj pass_plain)" t0]
    evidence_rejected_iff [of "evid None (js ''ok'')" "Response True (JObj pass_plain)" t0]
    evidence_rejected_iff [of "evid (Some 7) []" "Response True (JObj pass_plain)" t0]
    a w
  show ?thesis by simp
qed

section \<open>Marking a step as done\<close>

text \<open>
  C8 gives the reason of the synthetic result as "manually marked done". The entry that
  \<open>doneStep\<close> appends has the reason "Step marked as done".
\<close>

theorem doneStep_reason_counterexample:
  "d_done no_fields = None
   \<and> r_passed (result (last (history (fst (doneStep tea (Response True (JObj no_fields)) t0 tea)))))
       = Some True
   \<and> r_reason (result (last (history (fst (doneStep tea (Response True (JObj no_fields)) t0 tea)))))
       = Some (js ''Step marked as done'')
   \<and> js ''Step marked as done'' \<noteq> js ''manually marked done''"
  by (simp add: handler_defs example_defs js_def trim_def isWhiteSpace_def)

text \<open>
  C8, amended. For a response with a success status and a body other than \<open>null\<close>,
  whose fields are \<open>d\<close> (a body that is not an object has none, so it does not report
  \<open>done\<close>): when it does not report \<open>done\<close>, \<open>doneStep\<close> appends one entry for the
  current step with the fixed result \<open>passed\<close> true and reason "Step marked as done",
  then adds exactly one to \<open>currentIndex\<close> and reads \<open>currentStep\<close> from the unchanged
  \<open>steps\<close> at the new index (empty past the end); when it reports \<open>done\<close>, the history
  of the response is adopted if present and \<open>steps\<close>, \<open>currentStep\<close>, \<open>currentIndex\<close>
  and \<open>options\<close> are reset.
\<close>

theorem doneStep_outcome:
  assumes "b \<noteq> JNull" and "fields b = Inr d"
  shows "let s' = fst (doneStep s (Response True b) now s)
   in (d_done d \<noteq> Some True \<longrightarrow>
         history s' = history s @
           [\<lparr>step = currentStep s,
             evidence = Evidence (Some (js ''Step marked as done without verification'')) False,
             result = Result (Some True) (Some (js ''Step marked as done'')),
             ts = now\<rparr>]
         \<and> currentIndex s' = currentIndex s + 1
         \<and> steps s' = steps s
         \<and> currentStep s' = (if currentIndex s + 1 < length (steps s)
                             then steps s ! (currentIndex s + 1) else []))
      \<and> (d_done d = Some True \<longrightarrow>
         history s' = (case d_history d of Some h \<Rightarrow> h | None \<Rightarrow> history s)
         \<and> steps s' = [] \<and> currentStep s' = [] \<and> currentIndex s' = 0 \<and> options s' = [])"
  using assms(2)
  by (auto simp: doneStep_def done_try_def done_response_def done_entry_def
      truthy_bool_iff or_list_def or_str_at Let_def split: option.splits)

theorem doneStep_outcome_witness:
  "JObj no_fields \<noteq> JNull
   \<and> fields (JObj no_fields) = Inr no_fields
   \<and> d_done no_fields \<noteq> Some True
   \<and> history (fst (doneStep tea (Response True (JObj no_fields)) t0 tea)) = history tea @
       [\<lparr>step = js ''steep tea'',
         evidence = Evidence (Some (js ''Step marked as done without verification'')) False,
         result = Result (Some True) (Some (js ''Step marked as done'')),
         ts = t0\<rparr>]
   \<and> currentIndex (fst (doneStep tea (Response True (JObj no_fields)) t0 tea)) = 2
   \<and> currentStep (fst (doneStep tea (Response True (JObj no_fields)) t0 tea)) = js ''serve''
   \<and> JOther False \<noteq> JNull
   \<and> fields (JOther False) = Inr no_fields
   \<and> length (history (fst (doneStep tea (Response True (JOther False)) t0 tea))) = 2
   \<and> currentIndex (fst (doneStep tea (Response True (JOther False)) t0 tea)) = 2
   \<and> fields (JObj all_done) = Inr all_done
   \<and> d_done all_done = Some True
   \<and> history (fst (doneStep tea (Response True (JObj all_done)) t0 tea)) = history tea
   \<and> steps (fst (doneStep tea (Response True (JObj all_done)) t0 tea)) = []
   \<and> currentStep (fst (doneStep tea (Response True (JObj all_done)) t0 tea)) = []
   \<and> currentIndex (fst (doneStep tea (Response True (JObj all_done)) t0 tea)) = 0"
proof -
  have n: "JObj no_fields \<noteq> JNull" "JOther False \<noteq> JNull" "JObj all_done \<noteq> JNull"
    by simp_all
  have f: "fields (JObj no_fields) = Inr no_fields" "fields (JOther False) = Inr no_fields"
    "fields (JObj all_done) = Inr all_done"
    by (simp_all add: fields_def)
  have a: "d_done no_fields \<noteq> Some True" "d_done all_done = Some True"
    "d_history all_done = None"
    by (simp_all add: all_done_def no_fields_def)
  have t: "currentIndex tea = 1" "length (steps tea) = 3" "steps tea ! Suc (Suc 0) = js ''serve''"
    "currentStep tea = js ''steep tea''" "length (history tea) = 1"
    by (simp_all add: tea_def)
  from doneStep_outcome [OF n(1) f(1), of tea t0] doneStep_outcome [OF n(2) f(2), of tea t0]
    doneStep_outcome [OF n(3) f(3), of tea t0] f a t
  show ?thesis by (simp add: Let_def)
qed

section \<open>Applying an option\<close>

text \<open>
  C9 says that \<open>applyOption("quit")\<close> always wipes the session. The source throws on a
  status that is not a success before any cell is written, so the session survives.
\<close>

theorem applyOption_quit_counterexample:
  "goal tea = js ''make tea''
   \<and> goal (fst (applyOption tea (js ''quit'') (Response False (JObj refused)) tea)) = js ''make tea''
   \<and> taskId (fst (applyOption tea (js ''quit'') (Response False (JObj refused)) tea)) = js ''t-1''
   \<and> length (steps (fst (applyOption tea (js ''quit'') (Response False (JObj refused)) tea))) = 3
   \<and> length (history (fst (applyOption tea (js ''quit'') (Response False (JObj refused)) tea))) = 1
   \<and> js ''make tea'' \<noteq> []"
  by (simp add: handler_defs example_defs js_def trim_def isWhiteSpace_def)

text \<open>
  C9, amended. \<open>applyOption("quit")\<close> empties \<open>goal\<close>, \<open>taskId\<close>, \<open>steps\<close>, \<open>history\<close>
  and \<open>options\<close> (and \<open>currentStep\<close>, with \<open>currentIndex\<close> 0) whenever the gateway
  answers with a success status and a body other than \<open>null\<close>, whatever the session was
  and whatever the body holds. When the request fails or the status is not a success,
  only the message and the busy flag are written.
\<close>

theorem applyOption_quit:
  "(b \<noteq> JNull \<longrightarrow>
      (let s' = fst (applyOption s (js ''quit'') (Response True b) s)
       in goal s' = [] \<and> taskId s' = [] \<and> steps s' = [] \<and> currentStep s' = []
          \<and> currentIndex s' = 0 \<and> history s' = [] \<and> options s' = []))
   \<and> fst (applyOption s (js ''quit'') Rejected s) =
       s\<lparr>message := js ''Error applying action'', loading := False\<rparr>
   \<and> fst (applyOption s (js ''quit'') (Response False b) s) =
       s\<lparr>message := js ''Error applying action'', loading := False\<rparr>"
proof -
  have q: "js ''quit'' \<noteq> []" by (simp add: js_def)
  show ?thesis
    using q
    by (cases b)
      (simp_all add: applyOption_def option_try_def option_response_def fields_def Let_def)
qed

theorem applyOption_quit_witness:
  "JObj no_fields \<noteq> JNull
   \<and> goal (fst (applyOption tea (js ''quit'') (Response True (JObj no_fields)) tea)) = []
   \<and> taskId (fst (applyOption tea (js ''quit'') (Response True (JObj no_fields)) tea)) = []
   \<and> steps (fst (applyOption tea (js ''quit'') (Response True (JObj no_fields)) tea)) = []
   \<and> history (fst (applyOption tea (js ''quit'') (Response True (JObj no_fields)) tea)) = []
   \<and> options (fst (applyOption tea (js ''quit'') (Response True (JObj no_fields)) tea)) = []
   \<and> fst (applyOption tea (js ''quit'') (Response False (JObj refused)) tea)
       = tea\<lparr>message := js ''Error applying action'', loading := False\<rparr>"
proof -
  have n: "JObj no_fields \<noteq> JNull" by simp
  from applyOption_quit [of "JObj no_fields" tea] applyOption_quit [of "JObj refused" tea] n
  show ?thesis by (simp add: Let_def)
qed

section \<open>The history over sequences of transitions\<close>




end
